theory Spec2Isabelle
  imports Main "HOL-Library.Word"
begin

section \<open>Go values used by package alterations\<close>

text \<open>
  A Go string is a sequence of bytes; it is modelled as a HOL \<open>string\<close>, one \<open>char\<close> per
  byte. Host names are ASCII, where a byte is a rune, so \<open>[]rune(str)\<close> and \<open>string(r)\<close>
  are the identity on the model and \<open>len\<close> is \<open>length\<close>. Go's \<open>int\<close> is a 64-bit
  two's-complement integer whose arithmetic wraps around: it is a \<open>64 word\<close>, read with
  \<open>sint\<close>. Indices into strings are far below that range and are plain \<open>int\<close> (with
  \<open>-1\<close> for "not found") or \<open>nat\<close>.

  The locks of \<open>Cache\<close> order concurrent calls; the model is of one call at a time. The two
  cache pointers of a \<open>State\<close> are distinct objects, as \<open>NewState\<close> makes them.
\<close>

type_synonym go_int = "64 word"

text \<open>The only run-time failure of the package: indexing a slice beyond its length.\<close>

datatype error = IndexOutOfRange

text \<open>\<open>xs[i]\<close> on a slice.\<close>

definition at_index :: "'a list \<Rightarrow> nat \<Rightarrow> error + 'a" where
  "at_index xs i = (if i < length xs then Inr (xs ! i) else Inl IndexOutOfRange)"

definition ldhChars :: string where
  "ldhChars = ''abcdefghijklmnopqrstuvwxyz0123456789-''"

subsection \<open>Package strings, strconv and unicode\<close>

text \<open>\<open>strings.SplitN(name, ".", 2)\<close>: cut at the first dot, if there is one.\<close>

definition SplitN :: "string \<Rightarrow> string list" where
  "SplitN name =
     (if CHR ''.'' \<in> set name
      then [takeWhile (\<lambda>c. c \<noteq> CHR ''.'') name, drop 1 (dropWhile (\<lambda>c. c \<noteq> CHR ''.'') name)]
      else [name])"

text \<open>\<open>strings.Split(s, "-")\<close>: cut at every hyphen; never an empty slice.\<close>

fun Split :: "string \<Rightarrow> string list" where
  "Split [] = [[]]"
| "Split (c # cs) =
     (let r = Split cs in if c = CHR ''-'' then [] # r else (c # hd r) # tl r)"

text \<open>\<open>strings.Join(parts, sep)\<close>.\<close>

fun Join :: "string list \<Rightarrow> string \<Rightarrow> string" where
  "Join [] sep = []"
| "Join [p] sep = p"
| "Join (p # q # ps) sep = p @ sep @ Join (q # ps) sep"

text \<open>\<open>strings.Trim(s, "-")\<close>: drop the hyphens at both ends.\<close>

definition Trim :: "string \<Rightarrow> string" where
  "Trim s = rev (dropWhile (\<lambda>c. c = CHR ''-'') (rev (dropWhile (\<lambda>c. c = CHR ''-'') s)))"

text \<open>
  \<open>unicode.IsNumber\<close> on a one-byte rune: of the ASCII characters exactly the ten digits
  are in category N.
\<close>

definition IsNumber :: "char \<Rightarrow> bool" where
  "IsNumber c = (c \<in> set ''0123456789'')"

text \<open>\<open>strings.IndexFunc\<close> and \<open>strings.LastIndexFunc\<close>: \<open>-1\<close> when no character satisfies \<open>f\<close>.\<close>

fun IndexFunc :: "string \<Rightarrow> (char \<Rightarrow> bool) \<Rightarrow> int" where
  "IndexFunc [] f = -1"
| "IndexFunc (c # cs) f =
     (if f c then 0 else (let r = IndexFunc cs f in if r < 0 then -1 else r + 1))"

definition LastIndexFunc :: "string \<Rightarrow> (char \<Rightarrow> bool) \<Rightarrow> int" where
  "LastIndexFunc s f =
     (let r = IndexFunc (rev s) f in if r < 0 then -1 else int (length s) - 1 - r)"

text \<open>\<open>strconv.Itoa\<close> on a non-negative number.\<close>

fun Itoa :: "nat \<Rightarrow> string" where
  "Itoa n =
     (if n < 10 then [''0123456789'' ! n]
      else Itoa (n div 10) @ [''0123456789'' ! (n mod 10)])"

declare Itoa.simps [simp del]

subsection \<open>The string set\<close>

text \<open>
  Modelled from the spec: package \<open>stringset\<close> is not among the sources. The spec describes
  it as a deduplicating set of strings with \<open>insert\<close>, \<open>insertMany\<close> and an export in
  arbitrary order, so a generator's result is the HOL set of the strings inserted (one
  string is inserted as a list of one).
\<close>

definition InsertMany :: "string list \<Rightarrow> string set \<Rightarrow> string set" where
  "InsertMany elements S = set elements \<union> S"

section \<open>Cache\<close>

record Cache =
  Counters :: "string \<rightharpoonup> go_int"

definition NewCache :: "string list \<Rightarrow> Cache" where
  "NewCache seed = \<lparr>Counters = fold (\<lambda>word m. m(word \<mapsto> 0)) seed Map.empty\<rparr>"

text \<open>
  \<open>Update\<close> returns \<open>c.Counters[word]\<close> read back after the write; a Go map read of a
  missing key gives 0.
\<close>

definition Update :: "Cache \<Rightarrow> string \<Rightarrow> go_int \<times> Cache" where
  "Update c word =
     (let m = (case Counters c word of
                 Some n \<Rightarrow> (Counters c)(word \<mapsto> n + 1)
               | None \<Rightarrow> (Counters c)(word \<mapsto> 1))
      in ((case m word of Some n \<Rightarrow> n | None \<Rightarrow> 0), c\<lparr>Counters := m\<rparr>))"




section \<open>State and the generators\<close>

record State =
  MinForWordFlip :: go_int
  EditDistance :: go_int
  Prefixes :: Cache
  Suffixes :: Cache

definition NewState :: "string list \<Rightarrow> State" where
  "NewState wordlist =
     \<lparr>MinForWordFlip = 0, EditDistance = 0,
      Prefixes = NewCache wordlist, Suffixes = NewCache wordlist\<rparr>"

text \<open>
  \<open>for k, count := range c.Counters { if count >= min { ... k ... } }\<close> visits the keys in
  no fixed order; what it does is a function of the set of keys that pass the test.
\<close>

definition qualifying :: "go_int \<Rightarrow> Cache \<Rightarrow> string set" where
  "qualifying minimum c =
     {k \<in> dom (Counters c).
        case Counters c k of None \<Rightarrow> False | Some count \<Rightarrow> sint minimum \<le> sint count}"

text \<open>
  A loop over a slice whose body hands strings to \<open>InsertMany\<close>, and a loop over the
  qualifying words of a cache doing the same. A panic in the body ends the call.
\<close>

fun insert_each :: "('a \<Rightarrow> error + string list) \<Rightarrow> 'a list \<Rightarrow> string set \<Rightarrow> error + string set" where
  "insert_each body [] newNames = Inr newNames"
| "insert_each body (x # xs) newNames =
     (case body x of
        Inl e \<Rightarrow> Inl e
      | Inr names \<Rightarrow> insert_each body xs (InsertMany names newNames))"

definition range_words :: "string set \<Rightarrow> (string \<Rightarrow> error + string list) \<Rightarrow> error + string set" where
  "range_words W body =
     (if \<exists>w\<in>W. isl (body w) then Inl IndexOutOfRange
      else Inr (\<Union>w\<in>W. case body w of Inl e \<Rightarrow> {} | Inr names \<Rightarrow> set names))"

definition FlipWords :: "State \<Rightarrow> string \<Rightarrow> (error + string set) \<times> State" where
  "FlipWords s name =
     (let names = SplitN name in
      case at_index names 0 of Inl e \<Rightarrow> (Inl e, s) | Inr subdomain \<Rightarrow>
     (case at_index names 1 of Inl e \<Rightarrow> (Inl e, s) | Inr domain \<Rightarrow>
      let parts = Split subdomain in
      if length parts < 2 then (Inr {}, s)
      else
        let pre = parts ! 0;
            s1 = s\<lparr>Prefixes := snd (Update (Prefixes s) pre)\<rparr>;
            newNames1 = (\<lambda>k. k @ ''-'' @ Join (drop 1 parts) ''-'' @ ''.'' @ domain)
                          ` qualifying (MinForWordFlip s1) (Prefixes s1);
            post = parts ! (length parts - 1);
            s2 = s1\<lparr>Suffixes := snd (Update (Suffixes s1) post)\<rparr>;
            newNames2 = (\<lambda>k. Join (take (length parts - 1) parts) ''-'' @ ''-'' @ k @ ''.'' @ domain)
                          ` qualifying (MinForWordFlip s2) (Suffixes s2)
        in (Inr (newNames2 \<union> newNames1), s2)))"

definition secondNumberFlip :: "string \<Rightarrow> int \<Rightarrow> error + string list" where
  "secondNumberFlip name minIndex =
     (let parts = SplitN name in
      case at_index parts 0 of Inl e \<Rightarrow> Inl e | Inr label \<Rightarrow>
      let lastIdx = LastIndexFunc label IsNumber in
      if lastIdx < 0 \<or> lastIdx < minIndex then Inr [name]
      else Inr (map (\<lambda>i. take (nat lastIdx) name @ Itoa i @ drop (nat lastIdx + 1) name) [0..<10]
                @ [take (nat lastIdx) name @ drop (nat lastIdx + 1) name]))"

definition FlipNumbers :: "State \<Rightarrow> string \<Rightarrow> (error + string set) \<times> State" where
  "FlipNumbers s name =
     (let n = name; parts = SplitN n in
      case at_index parts 0 of Inl e \<Rightarrow> (Inl e, s) | Inr label \<Rightarrow>
      let first = IndexFunc label IsNumber in
      if first < 0 then (Inr {}, s)
      else
       (case insert_each
               (\<lambda>i. secondNumberFlip (take (nat first) n @ Itoa i @ drop (nat first + 1) n) (first + 1))
               [0..<10] {} of
          Inl e \<Rightarrow> (Inl e, s)
        | Inr newNames \<Rightarrow>
            (case secondNumberFlip (take (nat first) n @ drop (nat first + 1) n) (-1) of
               Inl e \<Rightarrow> (Inl e, s)
             | Inr names \<Rightarrow> (Inr (InsertMany names newNames), s))))"

definition addSuffix :: "string list \<Rightarrow> string \<Rightarrow> error + string list" where
  "addSuffix parts suffix =
     (case at_index parts 0 of Inl e \<Rightarrow> Inl e | Inr label \<Rightarrow>
       (case at_index parts 1 of Inl e \<Rightarrow> Inl e | Inr domain \<Rightarrow>
          Inr [label @ suffix @ ''.'' @ domain, label @ ''-'' @ suffix @ ''.'' @ domain]))"

definition addPrefix :: "string \<Rightarrow> string \<Rightarrow> string list" where
  "addPrefix name prefix = [prefix @ name, prefix @ ''-'' @ name]"

definition AppendNumbers :: "State \<Rightarrow> string \<Rightarrow> (error + string set) \<times> State" where
  "AppendNumbers s name =
     (let parts = SplitN name in
      case at_index parts 0 of Inl e \<Rightarrow> (Inl e, s) | Inr label \<Rightarrow>
      let parts = parts[0 := Trim label] in
      if Trim label = [] then (Inr {}, s)
      else (insert_each (\<lambda>i. addSuffix parts (Itoa i)) [0..<10] {}, s))"

definition AddSuffixWord :: "State \<Rightarrow> string \<Rightarrow> (error + string set) \<times> State" where
  "AddSuffixWord s name =
     (let parts = SplitN name in
      case at_index parts 0 of Inl e \<Rightarrow> (Inl e, s) | Inr label \<Rightarrow>
      let parts = parts[0 := Trim label] in
      if Trim label = [] then (Inr {}, s)
      else (range_words (qualifying (MinForWordFlip s) (Suffixes s)) (\<lambda>word. addSuffix parts word), s))"

definition AddPrefixWord :: "State \<Rightarrow> string \<Rightarrow> (error + string set) \<times> State" where
  "AddPrefixWord s name =
     (let name = Trim name in
      if name = [] then (Inr {}, s)
      else (range_words (qualifying (MinForWordFlip s) (Prefixes s)) (\<lambda>word. Inr (addPrefix name word)), s))"

subsection \<open>The edit operations on rune slices\<close>

text \<open>
  The three edit operations work on \<open>rstr := []rune(str)\<close>, a fresh slice for every
  candidate, and write through slices that share its backing array. The model threads the
  contents of \<open>rstr\<close> through the loops; \<open>string(temp)\<close> copies, so an emitted string
  is a value.

  \<open>substitutions\<close>: \<open>temp := rstr\<close> copies the slice header only, so \<open>temp[i] = ldh[j]\<close>
  writes \<open>rstr[i]\<close>.
\<close>

fun subst_symbols :: "nat \<Rightarrow> string \<Rightarrow> string \<Rightarrow> string \<times> string list" where
  "subst_symbols i [] rstr = (rstr, [])"
| "subst_symbols i (c # ldh) rstr =
     (let temp = rstr[i := c];
          (rstr', results) = subst_symbols i ldh temp
      in (rstr', temp # results))"

fun subst_positions :: "nat list \<Rightarrow> string \<Rightarrow> string list" where
  "subst_positions [] rstr = []"
| "subst_positions (i # is) rstr =
     (let (rstr', results) = subst_symbols i ldhChars rstr
      in results @ subst_positions is rstr')"

definition substitutions :: "string list \<Rightarrow> string list" where
  "substitutions strs = concat (map (\<lambda>str. subst_positions [0..<length str] str) strs)"

text \<open>
  \<open>deletions\<close>: \<open>append(rstr[:i], rstr[i+1:]...)\<close> has room in the backing array of
  \<open>rstr\<close> (it needs \<open>rlen - 1\<close> slots), so it moves the runes after position \<open>i\<close> one
  slot down inside \<open>rstr\<close>; the last slot keeps its rune.
\<close>

fun del_positions :: "nat list \<Rightarrow> string \<Rightarrow> string list" where
  "del_positions [] rstr = []"
| "del_positions (i # is) rstr =
     (let del = take i rstr @ drop (i + 1) rstr;
          rstr' = del @ drop (length rstr - 1) rstr
      in (if del \<noteq> [] then [del] else []) @ del_positions is rstr')"

definition deletions :: "string list \<Rightarrow> string list" where
  "deletions strs = concat (map (\<lambda>str. del_positions [0..<length str] str) strs)"

text \<open>
  \<open>additions\<close>: \<open>temp := append(rstr, ldh[0])\<close> writes into the backing array of \<open>rstr\<close>
  when its capacity exceeds its length, and into a new array otherwise. Go leaves the
  capacity of \<open>[]rune(str)\<close> to the implementation, so it is the parameter \<open>runecap\<close>.
  In the first case \<open>copy(temp[i+1:], temp[i:])\<close> and \<open>temp[i] = ldh[j]\<close> write \<open>rstr\<close>
  too (\<open>shared\<close>).
\<close>

fun add_symbols :: "bool \<Rightarrow> nat \<Rightarrow> string \<Rightarrow> string \<Rightarrow> string \<times> string list" where
  "add_symbols shared i [] rstr = (rstr, [])"
| "add_symbols shared i (c # ldh) rstr =
     (let temp = rstr @ [ldhChars ! 0];
          temp = take (i + 1) temp @ take (length temp - (i + 1)) (drop i temp);
          temp = temp[i := c];
          (rstr', results) =
            add_symbols shared i ldh (if shared then take (length rstr) temp else rstr)
      in (rstr', temp # results))"

fun add_positions :: "bool \<Rightarrow> nat list \<Rightarrow> string \<Rightarrow> string list" where
  "add_positions shared [] rstr = []"
| "add_positions shared (i # is) rstr =
     (let (rstr', results) = add_symbols shared i ldhChars rstr
      in results @ add_positions shared is rstr')"

definition additions :: "(string \<Rightarrow> nat) \<Rightarrow> string list \<Rightarrow> string list" where
  "additions runecap strs =
     concat (map (\<lambda>str. add_positions (length str < runecap str) [0..<length str + 1] str) strs)"

text \<open>The rounds of \<open>FuzzyLabelSearches\<close>, and the generator.\<close>

fun fuzz_rounds :: "(string \<Rightarrow> nat) \<Rightarrow> nat \<Rightarrow> string list \<Rightarrow> string list" where
  "fuzz_rounds runecap 0 results = results"
| "fuzz_rounds runecap (Suc k) results =
     fuzz_rounds runecap k
       (results @ (additions runecap results @ deletions results @ substitutions results))"

definition FuzzyLabelSearches ::
    "(string \<Rightarrow> nat) \<Rightarrow> State \<Rightarrow> string \<Rightarrow> (error + string set) \<times> State" where
  "FuzzyLabelSearches runecap s name =
     (let parts = SplitN name in
      case at_index parts 0 of Inl e \<Rightarrow> (Inl e, s) | Inr label0 \<Rightarrow>
      let results = fuzz_rounds runecap (nat (sint (EditDistance s))) [label0] in
      (insert_each
         (\<lambda>alt. let label = Trim alt in
                if label = [] then Inr []
                else (case at_index parts 1 of
                        Inl e \<Rightarrow> Inl e
                      | Inr domain \<Rightarrow> Inr [label @ ''.'' @ domain]))
         results {}, s))"

subsection \<open>Predicates used to state the claims\<close>

text \<open>\<open>x\<close> ends with \<open>e\<close>.\<close>

definition ends_with :: "string \<Rightarrow> string \<Rightarrow> bool" where
  "ends_with x e = (length e \<le> length x \<and> drop (length x - length e) x = e)"

text \<open>\<open>str\<close> with its first \<open>k\<close> characters overwritten by hyphens.\<close>

definition hyphenated :: "nat \<Rightarrow> string \<Rightarrow> string" where
  "hyphenated k str = replicate k (CHR ''-'') @ drop k str"

section \<open>Facts about the library functions\<close>

lemma at_index_simps [simp]:
  "i < length xs \<Longrightarrow> at_index xs i = Inr (xs ! i)"
  "length xs \<le> i \<Longrightarrow> at_index xs i = Inl IndexOutOfRange"
  by (simp_all add: at_index_def)


lemma takeWhile_label [simp]:
  "CHR ''.'' \<notin> set label \<Longrightarrow>
     takeWhile (\<lambda>c. c \<noteq> CHR ''.'') (label @ CHR ''.'' # tail) = label"
  by (induction label) auto

lemma dropWhile_label [simp]:
  "CHR ''.'' \<notin> set label \<Longrightarrow>
     dropWhile (\<lambda>c. c \<noteq> CHR ''.'') (label @ CHR ''.'' # tail) = CHR ''.'' # tail"
  by (induction label) auto

lemma SplitN_dot [simp]:
  "CHR ''.'' \<notin> set label \<Longrightarrow> SplitN (label @ CHR ''.'' # tail) = [label, tail]"
  by (simp add: SplitN_def)

lemma Split_not_Nil [simp]: "Split s \<noteq> []"
  by (induction s) (auto simp: Let_def)

lemma length_Split: "length (Split s) = Suc (length (filter (\<lambda>c. c = CHR ''-'') s))"
  by (induction s) (auto simp: Let_def)

lemma length_Split_hyphen: "length (Split s) < 2 \<longleftrightarrow> CHR ''-'' \<notin> set s"
  by (auto simp: length_Split filter_empty_conv)





lemma Itoa_digit: "n < 10 \<Longrightarrow> Itoa n = [''0123456789'' ! n]"
  by (simp add: Itoa.simps)

lemma upt_10: "[0..<10] = [0, 1, 2, 3, 4, 5, 6, 7, 8, 9]"
  by (simp add: upt_rec)

lemma takeWhile_no_dot:
  "CHR ''.'' \<notin> set x \<Longrightarrow> takeWhile (\<lambda>c. c \<noteq> CHR ''.'') x = x"
  by (induction x) auto

lemma at_index_SplitN_0 [simp]:
  "at_index (SplitN x) 0 = Inr (takeWhile (\<lambda>c. c \<noteq> CHR ''.'') x)"
  by (simp add: SplitN_def takeWhile_no_dot)

lemma insert_each_Inr:
  assumes "\<And>x. x \<in> set xs \<Longrightarrow> body x = Inr (g x)"
  shows "insert_each body xs acc = Inr (acc \<union> (\<Union>x\<in>set xs. set (g x)))"
  using assms by (induction xs arbitrary: acc) (auto simp: InsertMany_def)



lemma range_words_Inr:
  "range_words W (\<lambda>w. Inr (g w)) = Inr (\<Union>w\<in>W. set (g w))"
  by (simp add: range_words_def)




lemma ends_with_iff: "ends_with x e \<longleftrightarrow> (\<exists>p. x = p @ e)"
proof
  assume "ends_with x e"
  then have "x = take (length x - length e) x @ e"
    by (metis append_take_drop_id ends_with_def)
  then show "\<exists>p. x = p @ e" ..
next
  assume "\<exists>p. x = p @ e"
  then show "ends_with x e" by (auto simp: ends_with_def)
qed

lemma ends_with_refl [simp]: "ends_with e e"
  by (simp add: ends_with_def)

lemma ends_with_appendI [simp]: "ends_with x e \<Longrightarrow> ends_with (p @ x) e"
  unfolding ends_with_iff by (metis append.assoc)

lemma ends_with_ConsI [simp]: "ends_with x e \<Longrightarrow> ends_with (c # x) e"
  using ends_with_appendI [of x e "[c]"] by simp

lemma insert_each_all:
  assumes "insert_each body xs acc = Inr S"
    and "\<And>x ns y. x \<in> set xs \<Longrightarrow> body x = Inr ns \<Longrightarrow> y \<in> set ns \<Longrightarrow> P y"
    and "\<And>y. y \<in> acc \<Longrightarrow> P y"
  shows "\<forall>y\<in>S. P y"
  using assms
proof (induction xs arbitrary: acc)
  case Nil
  then show ?case by auto
next
  case (Cons x xs)
  from Cons.prems(1) obtain ns where b: "body x = Inr ns"
    and r: "insert_each body xs (InsertMany ns acc) = Inr S"
    by (auto split: sum.splits)
  show ?case
  proof (rule Cons.IH [OF r])
    show "P y" if "x' \<in> set xs" "body x' = Inr ns'" "y \<in> set ns'" for x' ns' y
      using that Cons.prems(2) by auto
    show "P y" if "y \<in> InsertMany ns acc" for y
      using that b Cons.prems(2,3) by (auto simp: InsertMany_def)
  qed
qed

lemma range_words_all:
  assumes "range_words W body = Inr S"
    and "\<And>w ns y. w \<in> W \<Longrightarrow> body w = Inr ns \<Longrightarrow> y \<in> set ns \<Longrightarrow> P y"
  shows "\<forall>y\<in>S. P y"
  using assms by (auto simp: range_words_def split: if_splits sum.splits)

lemma insert_each_total:
  "insert_each (\<lambda>x. Inr (g x)) xs acc = Inr (acc \<union> (\<Union>x\<in>set xs. set (g x)))"
  by (rule insert_each_Inr) simp

lemma if_Inr: "(if b then Inr x else Inr y) = Inr (if b then x else y)"
  by simp

lemma IndexFunc_bound: "IndexFunc s f < int (length s)"
  by (induction s) (auto simp: Let_def)

lemma LastIndexFunc_bound: "LastIndexFunc s f < int (length s)"
  by (auto simp: LastIndexFunc_def Let_def)

lemma Itoa_no_dot: "i < 10 \<Longrightarrow> CHR ''.'' \<notin> set (Itoa i)"
proof -
  assume "i < 10"
  then have "i \<in> set [0..<10]" by simp
  then show ?thesis unfolding upt_10 by (auto simp: Itoa_digit)
qed

lemma Trim_name:
  assumes "tail \<noteq> []" and "last tail \<noteq> CHR ''-''"
  shows "Trim (label @ CHR ''.'' # tail) = dropWhile (\<lambda>c. c = CHR ''-'') label @ CHR ''.'' # tail"
proof -
  let ?P = "\<lambda>c. c = CHR ''-''"
  have front: "dropWhile ?P (label @ CHR ''.'' # tail) = dropWhile ?P label @ CHR ''.'' # tail"
    by (induction label) auto
  obtain t c where t: "tail = t @ [c]" and c: "c \<noteq> CHR ''-''"
    using assms by (metis append_butlast_last_id)
  have "dropWhile ?P (rev (dropWhile ?P label @ CHR ''.'' # tail)) =
        rev (dropWhile ?P label @ CHR ''.'' # tail)"
    by (simp add: t c)
  then show ?thesis by (simp add: Trim_def front)
qed

section \<open>The cache\<close>

lemma fold_seed:
  "fold (\<lambda>word m. m(word \<mapsto> (0::go_int))) seed m0 w = (if w \<in> set seed then Some 0 else m0 w)"
  by (induction seed arbitrary: m0) auto

lemma Counters_NewCache:
  "Counters (NewCache seed) w = (if w \<in> set seed then Some 0 else None)"
  by (simp add: NewCache_def fold_seed)








lemma qualifying_NewCache:
  "sint minimum \<le> 0 \<Longrightarrow> qualifying minimum (NewCache seed) = set seed"
  by (auto simp: qualifying_def Counters_NewCache dom_def split: if_splits)

section \<open>What a generator does to the state\<close>

lemma snd_FlipNumbers [simp]: "snd (FlipNumbers s name) = s"
  by (simp add: FlipNumbers_def Let_def split: sum.splits)

lemma snd_AppendNumbers [simp]: "snd (AppendNumbers s name) = s"
  by (simp add: AppendNumbers_def Let_def split: sum.splits)

lemma snd_AddSuffixWord [simp]: "snd (AddSuffixWord s name) = s"
  by (simp add: AddSuffixWord_def Let_def split: sum.splits)

lemma snd_AddPrefixWord [simp]: "snd (AddPrefixWord s name) = s"
  by (simp add: AddPrefixWord_def Let_def)

lemma snd_FuzzyLabelSearches [simp]: "snd (FuzzyLabelSearches runecap s name) = s"
  by (simp add: FuzzyLabelSearches_def Let_def split: sum.splits)




text \<open>
  Claim C9. \<open>AddSuffixWord\<close> and \<open>AddPrefixWord\<close> never modify a cache: the state after
  the call, with both counter maps, is the state before it, on every input.
\<close>

theorem affix_words_read_only:
  "snd (AddSuffixWord s name) = s \<and> snd (AddPrefixWord s name) = s
   \<and> Counters (Prefixes (snd (AddSuffixWord s name))) = Counters (Prefixes s)
   \<and> Counters (Suffixes (snd (AddSuffixWord s name))) = Counters (Suffixes s)
   \<and> Counters (Prefixes (snd (AddPrefixWord s name))) = Counters (Prefixes s)
   \<and> Counters (Suffixes (snd (AddPrefixWord s name))) = Counters (Suffixes s)"
  by simp

section \<open>FlipWords\<close>

lemma FlipWords_no_hyphen:
  assumes "CHR ''.'' \<notin> set label" and "CHR ''-'' \<notin> set label"
  shows "FlipWords s (label @ CHR ''.'' # tail) = (Inr {}, s)"
  using assms by (simp add: FlipWords_def length_Split_hyphen)

lemma FlipWords_hyphen:
  assumes "CHR ''.'' \<notin> set label" and "CHR ''-'' \<in> set label"
  shows "FlipWords s (label @ CHR ''.'' # tail) =
    (let parts = Split label;
         P = snd (Update (Prefixes s) (parts ! 0));
         S = snd (Update (Suffixes s) (parts ! (length parts - 1)))
     in (Inr ((\<lambda>k. Join (take (length parts - 1) parts) ''-'' @ ''-'' @ k @ ''.'' @ tail)
                ` qualifying (MinForWordFlip s) S
              \<union> (\<lambda>k. k @ ''-'' @ Join (drop 1 parts) ''-'' @ ''.'' @ tail)
                ` qualifying (MinForWordFlip s) P),
         s\<lparr>Prefixes := P, Suffixes := S\<rparr>))"
  using assms by (simp add: FlipWords_def length_Split_hyphen Let_def)




text \<open>
  Claim C10. For a well-formed name whose label has no hyphen, \<open>FlipWords\<close> returns the
  empty set and leaves the state, with both caches, as it was: it returns before any
  \<open>Update\<close>.
\<close>

theorem FlipWords_no_hyphen_unchanged:
  assumes "CHR ''.'' \<notin> set label" and "CHR ''-'' \<notin> set label"
  shows "FlipWords s (label @ ''.'' @ tail) = (Inr {}, s)"
  using assms by (simp add: FlipWords_no_hyphen)

theorem FlipWords_no_hyphen_unchanged_witness:
  "CHR ''.'' \<notin> set ''host'' \<and> CHR ''-'' \<notin> set ''host''
   \<and> FlipWords (NewState [''www'']) ''host.example.com'' = (Inr {}, NewState [''www''])"
  using FlipWords_no_hyphen_unchanged [of "''host''" "NewState [''www'']" "''example.com''"]
  by simp

section \<open>FlipNumbers\<close>

lemma secondNumberFlip_Inr: "\<exists>ns. secondNumberFlip x m = Inr ns"
  by (simp add: secondNumberFlip_def Let_def)


text \<open>
  Claim C5. \<open>FlipNumbers("host1.example.com")\<close> returns exactly 11 unique names: the ten
  digit substitutions \<open>host0.example.com\<close> to \<open>host9.example.com\<close> and the digit removal
  \<open>host.example.com\<close>.
\<close>

theorem FlipNumbers_host1:
  "FlipNumbers s ''host1.example.com'' =
     (Inr {''host0.example.com'', ''host1.example.com'', ''host2.example.com'',
           ''host3.example.com'', ''host4.example.com'', ''host5.example.com'',
           ''host6.example.com'', ''host7.example.com'', ''host8.example.com'',
           ''host9.example.com'', ''host.example.com''}, s)
   \<and> card {''host0.example.com'', ''host1.example.com'', ''host2.example.com'',
           ''host3.example.com'', ''host4.example.com'', ''host5.example.com'',
           ''host6.example.com'', ''host7.example.com'', ''host8.example.com'',
           ''host9.example.com'', ''host.example.com''} = 11"
proof
  show "FlipNumbers s ''host1.example.com'' =
     (Inr {''host0.example.com'', ''host1.example.com'', ''host2.example.com'',
           ''host3.example.com'', ''host4.example.com'', ''host5.example.com'',
           ''host6.example.com'', ''host7.example.com'', ''host8.example.com'',
           ''host9.example.com'', ''host.example.com''}, s)"
    by (simp add: FlipNumbers_def secondNumberFlip_def SplitN_def IsNumber_def LastIndexFunc_def
        upt_10 Itoa_digit InsertMany_def Let_def insert_commute)
  show "card {''host0.example.com'', ''host1.example.com'', ''host2.example.com'',
           ''host3.example.com'', ''host4.example.com'', ''host5.example.com'',
           ''host6.example.com'', ''host7.example.com'', ''host8.example.com'',
           ''host9.example.com'', ''host.example.com''} = 11"
    by simp
qed

section \<open>Names without a separator\<close>
















section \<open>AddSuffixWord and AddPrefixWord on a label of hyphens\<close>

text \<open>\<open>AddSuffixWord\<close> trims the label, and returns the empty set when nothing is left.\<close>

lemma AddSuffixWord_trim_empty:
  assumes "CHR ''.'' \<notin> set label" and "Trim label = []"
  shows "AddSuffixWord s (label @ ''.'' @ tail) = (Inr {}, s)"
  using assms by (simp add: AddSuffixWord_def)

lemma AddSuffixWord_hyphen_label:
  "AddSuffixWord s ''--.example.com'' = (Inr {}, s)"
  using AddSuffixWord_trim_empty [of "''--''" s "''example.com''"] by (simp add: Trim_def)

lemma Trim_hyphens_name: "Trim ''--.example.com'' = ''.example.com''"
  by (simp add: Trim_def)

text \<open>
  Claim C4 says that \<open>AddSuffixWord\<close> and \<open>AddPrefixWord\<close> return the empty set when the
  label is made of hyphens, whatever the caches hold. \<open>AddSuffixWord\<close> does (above).
  \<open>AddPrefixWord\<close> trims the whole name instead of the label, so its test for an empty
  string sees \<open>.example.com\<close>: with the seed word \<open>www\<close> it returns two names.
\<close>

theorem AddPrefixWord_hyphen_label:
  "AddPrefixWord (NewState [''www'']) ''--.example.com'' =
     (Inr {''www.example.com'', ''www-.example.com''}, NewState [''www''])"
  by (simp add: AddPrefixWord_def Trim_hyphens_name range_words_Inr addPrefix_def
      NewState_def qualifying_NewCache Let_def)

section \<open>The tail of a name\<close>

lemma secondNumberFlip_tail:
  assumes "CHR ''.'' \<notin> set label"
    and "secondNumberFlip (label @ CHR ''.'' # tail) m = Inr ns" and "x \<in> set ns"
  shows "ends_with x (CHR ''.'' # tail)"
proof -
  let ?name = "label @ CHR ''.'' # tail"
  let ?k = "LastIndexFunc label IsNumber"
  show ?thesis
  proof (cases "?k < 0 \<or> ?k < m")
    case True
    with assms show ?thesis by (auto simp: secondNumberFlip_def)
  next
    case False
    then have k: "nat ?k < length label"
      using LastIndexFunc_bound [of label IsNumber] by auto
    have "ns = map (\<lambda>i. (take (nat ?k) label @ Itoa i @ drop (nat ?k + 1) label) @ CHR ''.'' # tail) [0..<10]
              @ [(take (nat ?k) label @ drop (nat ?k + 1) label) @ CHR ''.'' # tail]"
      using assms(1,2) False k
      by (simp add: secondNumberFlip_def Let_def del: upt_Suc)
    with assms(3) show ?thesis by (auto simp del: upt_Suc)
  qed
qed

lemma FlipNumbers_tail:
  assumes "CHR ''.'' \<notin> set label"
    and "fst (FlipNumbers s (label @ CHR ''.'' # tail)) = Inr S" and "x \<in> S"
  shows "ends_with x (CHR ''.'' # tail)"
proof -
  let ?n = "label @ CHR ''.'' # tail"
  let ?f = "IndexFunc label IsNumber"
  show ?thesis
  proof (cases "?f < 0")
    case True
    with assms show ?thesis by (simp add: FlipNumbers_def)
  next
    case False
    then have f: "nat ?f < length label"
      using IndexFunc_bound [of label IsNumber] by auto
    let ?sf = "\<lambda>i. (take (nat ?f) label @ Itoa i @ drop (nat ?f + 1) label) @ CHR ''.'' # tail"
    let ?rm = "(take (nat ?f) label @ drop (nat ?f + 1) label) @ CHR ''.'' # tail"
    obtain g where g: "\<And>y m. secondNumberFlip y m = Inr (g y m)"
      using secondNumberFlip_Inr by metis
    have nd: "CHR ''.'' \<notin> set (take (nat ?f) label @ Itoa i @ drop (nat ?f + 1) label)"
      if "i < 10" for i
      using assms(1) Itoa_no_dot [OF that] by (auto dest: in_set_takeD in_set_dropD)
    have nd': "CHR ''.'' \<notin> set (take (nat ?f) label @ drop (nat ?f + 1) label)"
      using assms(1) by (auto dest: in_set_takeD in_set_dropD)
    have S: "S = set (g ?rm (-1)) \<union> (\<Union>i\<in>set [0..<10]. set (g (?sf i) (?f + 1)))"
      using assms(1,2) False f
      by (simp add: FlipNumbers_def Let_def g insert_each_Inr InsertMany_def del: upt_Suc)
    from assms(3) S consider "x \<in> set (g ?rm (-1))"
      | i where "i < 10" "x \<in> set (g (?sf i) (?f + 1))"
      by auto
    then show ?thesis
    proof cases
      case 1
      then show ?thesis using secondNumberFlip_tail [OF nd' g] by blast
    next
      case 2
      then show ?thesis using secondNumberFlip_tail [OF nd [OF 2(1)] g] by blast
    qed
  qed
qed


lemma FlipWords_tail:
  assumes "CHR ''.'' \<notin> set label"
    and "fst (FlipWords s (label @ CHR ''.'' # tail)) = Inr S" and "x \<in> S"
  shows "ends_with x (CHR ''.'' # tail)"
proof (cases "CHR ''-'' \<in> set label")
  case True
  with assms show ?thesis
    by (auto simp: FlipWords_hyphen Let_def)
next
  case False
  with assms show ?thesis by (simp add: FlipWords_no_hyphen)
qed

lemma addSuffix_two:
  "addSuffix [label, tail] =
     (\<lambda>w. Inr [label @ w @ CHR ''.'' # tail, label @ CHR ''-'' # w @ CHR ''.'' # tail])"
  by (rule ext) (simp add: addSuffix_def)

lemma AppendNumbers_tail:
  assumes "CHR ''.'' \<notin> set label"
    and "fst (AppendNumbers s (label @ CHR ''.'' # tail)) = Inr S" and "x \<in> S"
  shows "ends_with x (CHR ''.'' # tail)"
proof (cases "Trim label = []")
  case True
  with assms show ?thesis by (simp add: AppendNumbers_def)
next
  case False
  with assms(1,2) have
    "insert_each (\<lambda>i. Inr [Trim label @ Itoa i @ CHR ''.'' # tail,
                             Trim label @ CHR ''-'' # Itoa i @ CHR ''.'' # tail]) [0..<10] {} = Inr S"
    by (simp add: AppendNumbers_def addSuffix_two del: upt_Suc)
  then have "\<forall>y\<in>S. ends_with y (CHR ''.'' # tail)"
    by (rule insert_each_all) auto
  with assms(3) show ?thesis by blast
qed

lemma AddSuffixWord_tail:
  assumes "CHR ''.'' \<notin> set label"
    and "fst (AddSuffixWord s (label @ CHR ''.'' # tail)) = Inr S" and "x \<in> S"
  shows "ends_with x (CHR ''.'' # tail)"
proof (cases "Trim label = []")
  case True
  with assms show ?thesis by (simp add: AddSuffixWord_def)
next
  case False
  with assms show ?thesis
    by (auto simp: AddSuffixWord_def addSuffix_two range_words_Inr)
qed

lemma FuzzyLabelSearches_dot:
  assumes "CHR ''.'' \<notin> set label"
  shows "FuzzyLabelSearches runecap s (label @ CHR ''.'' # tail) =
    (Inr (\<Union>alt\<in>set (fuzz_rounds runecap (nat (sint (EditDistance s))) [label]).
            set (if Trim alt = [] then [] else [Trim alt @ CHR ''.'' # tail])), s)"
  using assms
  by (simp add: FuzzyLabelSearches_def Let_def if_Inr insert_each_total cong: if_cong)

lemma FuzzyLabelSearches_tail:
  assumes "CHR ''.'' \<notin> set label"
    and "fst (FuzzyLabelSearches runecap s (label @ CHR ''.'' # tail)) = Inr S" and "x \<in> S"
  shows "ends_with x (CHR ''.'' # tail)"
  using assms by (auto simp: FuzzyLabelSearches_dot split: if_splits)

lemma AddPrefixWord_tail:
  assumes "tail \<noteq> []" and "last tail \<noteq> CHR ''-''"
    and "fst (AddPrefixWord s (label @ CHR ''.'' # tail)) = Inr S" and "x \<in> S"
  shows "ends_with x (CHR ''.'' # tail)"
  using assms(3,4)
  by (auto simp: AddPrefixWord_def Trim_name [OF assms(1,2)] range_words_Inr addPrefix_def Let_def)

lemma tail_preserved:
  assumes "CHR ''.'' \<notin> set label"
  shows "(fst (FlipWords s (label @ ''.'' @ tail)) = Inr S \<longrightarrow>
            (\<forall>x\<in>S. ends_with x (''.'' @ tail)))
    \<and> (fst (FlipNumbers s (label @ ''.'' @ tail)) = Inr S \<longrightarrow>
            (\<forall>x\<in>S. ends_with x (''.'' @ tail)))
    \<and> (fst (AppendNumbers s (label @ ''.'' @ tail)) = Inr S \<longrightarrow>
            (\<forall>x\<in>S. ends_with x (''.'' @ tail)))
    \<and> (fst (AddSuffixWord s (label @ ''.'' @ tail)) = Inr S \<longrightarrow>
            (\<forall>x\<in>S. ends_with x (''.'' @ tail)))
    \<and> (fst (FuzzyLabelSearches runecap s (label @ ''.'' @ tail)) = Inr S \<longrightarrow>
            (\<forall>x\<in>S. ends_with x (''.'' @ tail)))
    \<and> (tail \<noteq> [] \<and> last tail \<noteq> CHR ''-'' \<and>
         fst (AddPrefixWord s (label @ ''.'' @ tail)) = Inr S \<longrightarrow>
            (\<forall>x\<in>S. ends_with x (''.'' @ tail)))"
proof (intro conjI impI ballI)
  fix x assume "x \<in> S"
  then show "ends_with x (''.'' @ tail)" if "fst (FlipWords s (label @ ''.'' @ tail)) = Inr S"
    using that FlipWords_tail [OF assms, of s tail S x] by simp
  from \<open>x \<in> S\<close> show "ends_with x (''.'' @ tail)"
    if "fst (FlipNumbers s (label @ ''.'' @ tail)) = Inr S"
    using that FlipNumbers_tail [OF assms, of s tail S x] by simp
  from \<open>x \<in> S\<close> show "ends_with x (''.'' @ tail)"
    if "fst (AppendNumbers s (label @ ''.'' @ tail)) = Inr S"
    using that AppendNumbers_tail [OF assms, of s tail S x] by simp
  from \<open>x \<in> S\<close> show "ends_with x (''.'' @ tail)"
    if "fst (AddSuffixWord s (label @ ''.'' @ tail)) = Inr S"
    using that AddSuffixWord_tail [OF assms, of s tail S x] by simp
  from \<open>x \<in> S\<close> show "ends_with x (''.'' @ tail)"
    if "fst (FuzzyLabelSearches runecap s (label @ ''.'' @ tail)) = Inr S"
    using that FuzzyLabelSearches_tail [OF assms, of runecap s tail S x] by simp
  from \<open>x \<in> S\<close> show "ends_with x (''.'' @ tail)"
    if "tail \<noteq> [] \<and> last tail \<noteq> CHR ''-'' \<and>
        fst (AddPrefixWord s (label @ ''.'' @ tail)) = Inr S"
    using that AddPrefixWord_tail [of tail s label S x] by simp
qed


lemma Trim_a_b: "Trim ''a.b-'' = ''a.b''"
  by (simp add: Trim_def)

text \<open>
  Claim C7 says that every string a generator returns for \<open>label.tail\<close> ends with
  \<open>.tail\<close>. Five generators do, and so does \<open>AddPrefixWord\<close> when the tail does not end
  with a hyphen (\<open>tail_preserved\<close>). \<open>AddPrefixWord\<close> trims the whole name, so it cuts the
  hyphens at the end of the tail: for \<open>a.b-\<close> no name it returns ends with \<open>.b-\<close>.
\<close>

theorem AddPrefixWord_tail_hyphen:
  "AddPrefixWord (NewState [''www'']) ''a.b-'' = (Inr {''wwwa.b'', ''www-a.b''}, NewState [''www''])
   \<and> \<not> ends_with ''wwwa.b'' ''.b-'' \<and> \<not> ends_with ''www-a.b'' ''.b-''"
  by (simp add: AddPrefixWord_def Trim_a_b range_words_Inr addPrefix_def
      NewState_def qualifying_NewCache ends_with_def Let_def)

section \<open>The edit operations\<close>

text \<open>Every candidate is edited on its own copy: the operations distribute over the list.\<close>

lemma edit_operations_append:
  "substitutions (xs @ ys) = substitutions xs @ substitutions ys"
  "deletions (xs @ ys) = deletions xs @ deletions ys"
  "additions runecap (xs @ ys) = additions runecap xs @ additions runecap ys"
  by (simp_all add: substitutions_def deletions_def additions_def)

lemma ldh_length: "length ldhChars = 37"
  by (simp add: ldhChars_def)

lemma subst_symbols_eq:
  "subst_symbols i ldh rstr =
     ((if ldh = [] then rstr else rstr[i := last ldh]), map (\<lambda>c. rstr[i := c]) ldh)"
  by (induction ldh arbitrary: rstr) (auto simp: Let_def)

lemma hyphenated_step:
  assumes "k < length str"
  shows "(hyphenated k str)[k := CHR ''-''] = hyphenated (Suc k) str"
proof -
  have "drop k str = str ! k # drop (Suc k) str"
    using assms by (simp add: Cons_nth_drop_Suc)
  then show ?thesis
    by (simp add: hyphenated_def list_update_append replicate_append_same)
qed

lemma subst_positions_eq:
  "k \<le> length str \<Longrightarrow>
   subst_positions [k..<length str] (hyphenated k str) =
     concat (map (\<lambda>i. map (\<lambda>c. (hyphenated i str)[i := c]) ldhChars) [k..<length str])"
proof (induction "length str - k" arbitrary: k)
  case 0
  then show ?case by simp
next
  case (Suc d)
  then have lt: "k < length str" and d: "d = length str - Suc k" by auto
  have u: "[k..<length str] = k # [Suc k..<length str]"
    using lt by (rule upt_conv_Cons)
  have l: "last ldhChars = CHR ''-''" "ldhChars \<noteq> []"
    by (simp_all add: ldhChars_def)
  have "subst_positions [Suc k..<length str] (hyphenated (Suc k) str) =
     concat (map (\<lambda>i. map (\<lambda>c. (hyphenated i str)[i := c]) ldhChars) [Suc k..<length str])"
    using Suc.hyps(1) [OF d] lt by simp
  then show ?case
    by (simp add: u subst_symbols_eq l hyphenated_step [OF lt])
qed

lemma substitutions_emits:
  "substitutions [str] =
     concat (map (\<lambda>i. map (\<lambda>c. (replicate i (CHR ''-'') @ drop i str)[i := c]) ldhChars)
               [0..<length str])"
  using subst_positions_eq [of 0 str]
  by (simp add: substitutions_def hyphenated_def)


lemma substitutions_ab_value:
  "substitutions [''ab''] =
     map (\<lambda>c. [c, CHR ''b'']) ldhChars @ map (\<lambda>c. [CHR ''-'', c]) ldhChars"
  by (simp add: substitutions_def upt_rec ldhChars_def Let_def)

text \<open>
  Claim C1 says that \<open>substitutions\<close> emits, for every position \<open>i\<close> and symbol \<open>c\<close>, the
  candidate with only position \<open>i\<close> replaced by \<open>c\<close>. The strings emitted are values and
  no candidate is altered, but \<open>temp := rstr\<close> shares the buffer, so the hyphen written
  last at a position stays there for the positions after it (\<open>substitutions_emits\<close>): for
  \<open>ab\<close> the second position yields \<open>-a\<close>, \<open>-b\<close>, ..., and never \<open>aa\<close>. The alphabet has
  37 symbols (\<open>ldh_length\<close>).
\<close>

theorem substitutions_ab:
  "substitutions [''ab''] =
     map (\<lambda>c. [c, CHR ''b'']) ldhChars @ map (\<lambda>c. [CHR ''-'', c]) ldhChars
   \<and> ''aa'' \<notin> set (substitutions [''ab''])"
  by (simp add: substitutions_ab_value) (simp add: ldhChars_def)

lemma length_add_symbols: "length (snd (add_symbols shared i ldh rstr)) = length ldh"
  by (induction ldh arbitrary: rstr) (simp_all add: Let_def case_prod_beta)

lemma length_add_positions:
  "length (add_positions shared is rstr) = length is * length ldhChars"
proof (induction "is" arbitrary: rstr)
  case Nil
  show ?case by simp
next
  case (Cons i "is")
  obtain r out where a: "add_symbols shared i ldhChars rstr = (r, out)"
    by (cases "add_symbols shared i ldhChars rstr")
  then have "length out = length ldhChars"
    using length_add_symbols [of shared i ldhChars rstr] by simp
  with a Cons.IH [of r] show ?case by simp
qed

lemma length_additions_one:
  "length (additions runecap [str]) = (length str + 1) * 37"
  by (simp add: additions_def length_add_positions ldh_length del: upt_Suc)

lemma deletions_ab: "deletions [''ab''] = [''b'', ''b'']"
  by (simp add: deletions_def upt_rec Let_def)

lemma card_candidates:
  "card (\<Union>alt\<in>set xs. set (if P alt then [] else [f alt])) \<le> length xs"
proof -
  have "(\<Union>alt\<in>set xs. set (if P alt then [] else [f alt])) =
        set (concat (map (\<lambda>alt. if P alt then [] else [f alt]) xs))"
    by (auto split: if_splits)
  also have "card \<dots> \<le> length (concat (map (\<lambda>alt. if P alt then [] else [f alt]) xs))"
    by (rule card_length)
  also have "\<dots> \<le> length xs"
    by (induction xs) auto
  finally show ?thesis .
qed

lemma FuzzyLabelSearches_ab:
  assumes "EditDistance s = 1"
  shows "\<exists>S. FuzzyLabelSearches runecap s ''ab.example.com'' = (Inr S, s)
           \<and> card S \<le> 192 \<and> ''a.example.com'' \<in> S \<and> ''b.example.com'' \<in> S"
proof -
  let ?results = "fuzz_rounds runecap (nat (sint (EditDistance s))) [''ab'']"
  let ?S = "\<Union>alt\<in>set ?results.
              set (if Trim alt = [] then [] else [Trim alt @ CHR ''.'' # ''example.com''])"
  have r: "?results = [''ab''] @ (additions runecap [''ab''] @ deletions [''ab''] @ substitutions [''ab''])"
    by (simp add: assms)
  have eq: "FuzzyLabelSearches runecap s ''ab.example.com'' = (Inr ?S, s)"
    using FuzzyLabelSearches_dot [of "''ab''" runecap s "''example.com''"] by simp
  have "length ?results = 188"
    unfolding r by (simp add: length_additions_one deletions_ab substitutions_ab_value ldh_length)
  then have card: "card ?S \<le> 192"
    using card_candidates [of "\<lambda>alt. Trim alt = []" "\<lambda>alt. Trim alt @ CHR ''.'' # ''example.com''" ?results]
    by simp
  have "''-a'' \<in> set (substitutions [''ab''])"
    by (simp add: substitutions_ab_value ldhChars_def)
  then have "''-a'' \<in> set ?results" unfolding r by simp
  moreover have "Trim ''-a'' = ''a''" by (simp add: Trim_def)
  ultimately have a: "''a.example.com'' \<in> ?S"
    by (intro UN_I [of "''-a''"]) simp_all
  have "''b'' \<in> set ?results" unfolding r by (simp add: deletions_ab)
  moreover have "Trim ''b'' = ''b''" by (simp add: Trim_def)
  ultimately have b: "''b.example.com'' \<in> ?S"
    by (intro UN_I [of "''b''"]) simp_all
  from eq card a b show ?thesis by blast
qed

text \<open>
  Claim C3 says that \<open>deletions\<close> emits, for every position \<open>i\<close>, the candidate with the
  character at \<open>i\<close> removed. \<open>append(rstr[:i], rstr[i+1:]...)\<close> writes into the buffer of
  \<open>rstr\<close>, so the later positions delete from an already shifted string: \<open>abc\<close> gives
  \<open>bc\<close> three times, and neither \<open>ac\<close> nor \<open>ab\<close>. The instance of the claim holds all
  the same (\<open>FuzzyLabelSearches_ab\<close>: at most 188 names, with \<open>a.example.com\<close> coming from
  the substitution \<open>-a\<close>).
\<close>

theorem deletions_abc: "deletions [''abc''] = [''bc'', ''bc'', ''bc'']"
  by (simp add: deletions_def upt_rec Let_def)

end
